theory Spec2Isabelle
  imports Complex_Main "HOL-Library.Sublist"
begin

section \<open>The kinematic model, as the markers read it\<close>

text \<open>
  The markers read the OpenRAVE scene graph through getters only. A C++ \<open>double\<close> or
  \<open>dReal\<close> is modelled as a \<open>real\<close>; an \<open>OpenRAVE::Vector\<close> is its four components
  \<open>(x, y, z, w)\<close>; an \<open>OpenRAVE::Transform\<close> is a rotation quaternion and a translation.
\<close>

type_synonym Vector = "real \<times> real \<times> real \<times> real"

record Transform =
  rot :: Vector
  trans :: Vector

datatype GeometryType = GT_None | GT_Box | GT_Sphere | GT_Cylinder | GT_TriMesh
  | GT_Unknown int

text \<open>
  A geometry object, one field for each getter that \<open>LinkMarker.cpp\<close> and
  \<open>SuperViewer.cpp\<close> call. \<open>AABBExtents\<close> is \<open>ComputeAABB(ident).extents\<close>; a real
  number is never NaN, so \<open>AABBExtentsXIsNan\<close> carries the value of
  \<open>isnan(aabb.extents.x)\<close>.
\<close>

record Geometry =
  IsVisible :: bool
  GetType :: GeometryType
  GetRenderFilename :: string
  GetRenderScale :: Vector
  GetGeomTransform :: Transform
  GetDiffuseColor :: Vector
  GetTransparency :: real
  GetBoxExtents :: Vector
  GetSphereRadius :: real
  GetCylinderRadius :: real
  GetCylinderHeight :: real
  AABBExtents :: Vector
  AABBExtentsXIsNan :: bool

text \<open>
  Objects are identified by their address. A link holds shared pointers to its
  geometries, so a geometry address in a link's list always resolves (\<open>geometries\<close> is
  total); the markers hold weak pointers to links and joints, and \<open>lock()\<close> of a weak
  pointer yields an empty pointer once the object is gone (\<open>links\<close> and \<open>joints\<close> are
  partial).
\<close>

type_synonym geom_ptr = nat
type_synonym link_ptr = nat
type_synonym joint_ptr = nat

record Link =
  LinkName :: string
  LinkParentName :: string
  GetTransform :: Transform
  GetGeometries :: "geom_ptr list"

datatype JointType = JointRevolute | JointPrismatic | JointOtherType int

record Joint =
  JointName :: string
  JointParentName :: string
  JointGetType :: JointType
  IsStatic :: bool
  IsMimic :: bool
  GetValue0 :: real
  GetAxis :: Vector
  GetAnchor :: Vector

record KinBody =
  BodyName :: string
  GetLinks :: "link_ptr list"

record Environment =
  EnvironmentId :: int
  GetBodies :: "KinBody list"
  links :: "link_ptr \<rightharpoonup> Link"
  joints :: "joint_ptr \<rightharpoonup> Joint"
  geometries :: "geom_ptr \<Rightarrow> Geometry"

section \<open>Marker messages and the marker service\<close>

datatype MarkerType = ARROW | CUBE | SPHERE | CYLINDER | MESH_RESOURCE

record Marker =
  marker_frame_id :: string
  marker_pose :: Transform
  marker_color :: Vector
  marker_type :: MarkerType
  marker_scale :: "real \<times> real \<times> real"
  mesh_resource :: string
  mesh_use_embedded_materials :: bool

datatype OrientationMode = INHERIT | FIXED | VIEW_FACING

datatype InteractionMode = NONE | MENU | BUTTON | MOVE_AXIS | MOVE_PLANE | ROTATE_AXIS
  | MOVE_ROTATE | MOVE_3D | ROTATE_3D | MOVE_ROTATE_3D

record InteractiveMarkerControl =
  control_name :: string
  control_orientation :: Vector
  orientation_mode :: OrientationMode
  interaction_mode :: InteractionMode
  always_visible :: bool
  markers :: "Marker list"

record InteractiveMarker =
  frame_id :: string
  name :: string
  description :: string
  pose :: Transform
  scale :: real
  controls :: "InteractiveMarkerControl list"

text \<open>
  The \<open>InteractiveMarkerServer\<close> is an external collaborator. The model keeps the
  sequence of calls it has received, oldest first; it outlives a failing caller, so
  every operation returns the server next to its own result.
\<close>

datatype server_call =
    Insert InteractiveMarker
  | SetPose string Transform
  | SetCallback string
  | Erase string

type_synonym server = "server_call list"

text \<open>
  \<open>NullPointerDereference\<close>: \<open>operator->\<close> on the empty pointer that \<open>lock()\<close> returned
  for an expired object. \<open>OutOfRange\<close>: \<open>std::vector::at\<close> past the end.
\<close>

datatype error = NullPointerDereference | OutOfRange

text \<open>
  Modelled from the spec: \<open>or_conversions.h\<close> (\<open>toROSPose\<close>, \<open>toROSVector\<close>,
  \<open>toROSColor\<close>, \<open>toORPose\<close>) is not among the sources. Section 4.1 calls the
  conversions exact and lossless, so both sides share one representation of a pose and of
  a colour, and a scale is the first three components of the vector.
\<close>

definition toROSPose :: "Transform \<Rightarrow> Transform" where
  "toROSPose t = t"

definition toORPose :: "Transform \<Rightarrow> Transform" where
  "toORPose p = p"

definition toROSColor :: "Vector \<Rightarrow> Vector" where
  "toROSColor c = c"

definition toROSVector :: "Vector \<Rightarrow> real \<times> real \<times> real" where
  "toROSVector v = (case v of (x, y, z, w) \<Rightarrow> (x, y, z))"

definition default_Transform :: Transform where
  "default_Transform = \<lparr>rot = (0, 0, 0, 0), trans = (0, 0, 0, 0)\<rparr>"

definition default_Marker :: Marker where
  "default_Marker = \<lparr>marker_frame_id = [], marker_pose = default_Transform,
     marker_color = (0, 0, 0, 0), marker_type = ARROW, marker_scale = (0, 0, 0), mesh_resource = [],
     mesh_use_embedded_materials = False\<rparr>"

definition default_InteractiveMarkerControl :: InteractiveMarkerControl where
  "default_InteractiveMarkerControl = \<lparr>control_name = [], control_orientation = (0, 0, 0, 0),
     orientation_mode = INHERIT, interaction_mode = NONE, always_visible = False,
     markers = []\<rparr>"

definition default_InteractiveMarker :: InteractiveMarker where
  "default_InteractiveMarker = \<lparr>frame_id = [], name = [], description = [],
     pose = default_Transform, scale = 0, controls = []\<rparr>"

text \<open>The \<open>%d\<close> of \<open>boost::format\<close> on an environment id.\<close>

fun string_of_nat :: "nat \<Rightarrow> string" where
  "string_of_nat n =
     (if n < 10 then [''0123456789'' ! n]
      else string_of_nat (n div 10) @ [''0123456789'' ! (n mod 10)])"

declare string_of_nat.simps [simp del]

definition string_of_int :: "int \<Rightarrow> string" where
  "string_of_int i = (if i < 0 then ''-'' @ string_of_nat (nat (- i)) else string_of_nat (nat i))"

section \<open>LinkMarker\<close>

datatype RenderMode = kVisual | kCollision

text \<open>
  \<open>geometry_markers_\<close> stores \<open>&visual_control_->markers.back()\<close>, a pointer into the
  storage of a \<open>std::vector\<close>. The vector keeps its elements in one allocated buffer; a
  \<open>push_back\<close> at full capacity moves them to a new buffer and frees the old one, after
  which every pointer into the old buffer dangles. \<open>clear()\<close> keeps buffer and capacity.
  The model names each allocation by a number (\<open>buffer\<close>; a reallocation takes the next
  one, and no number is used twice, so a dangling pointer stays one) and a pointer by the
  allocation and the position in it. An empty vector that never held an element has
  capacity 0. The new capacity is the one of libstdc++, the old size plus the larger of the
  old size and one; the general properties below do not depend on it.
\<close>

datatype MarkerPtr = NULL | MarkerAddr nat nat

record vector_storage =
  buffer :: nat
  capacity :: nat

definition grown_capacity :: "nat \<Rightarrow> nat" where
  "grown_capacity n = n + max n 1"

definition push_back ::
  "Marker \<Rightarrow> Marker list \<times> vector_storage \<Rightarrow> Marker list \<times> vector_storage" where
  "push_back x v =
     (if length (fst v) < capacity (snd v) then (fst v @ [x], snd v)
      else (fst v @ [x],
            \<lparr>buffer = Suc (buffer (snd v)), capacity = grown_capacity (length (fst v))\<rparr>))"

text \<open>\<open>&v.back()\<close>, for a vector that is not empty.\<close>

definition address_of_back :: "Marker list \<times> vector_storage \<Rightarrow> MarkerPtr" where
  "address_of_back v = MarkerAddr (buffer (snd v)) (length (fst v) - 1)"

text \<open>
  What a pointer refers to in a vector: the element at its position when it points into
  the vector's current buffer, and nothing when it is \<open>NULL\<close> or dangles.
\<close>

definition points_to :: "Marker list \<times> vector_storage \<Rightarrow> MarkerPtr \<Rightarrow> Marker option" where
  "points_to v p =
     (case p of
        NULL \<Rightarrow> None
      | MarkerAddr b i \<Rightarrow>
          if b = buffer (snd v) \<and> i < length (fst v) then Some (fst v ! i) else None)"

text \<open>
  A member \<open>x_\<close> of the class is the field \<open>x_m\<close> of the record. \<open>geometry_markers_m\<close>
  maps a geometry address to the pointer stored for it. The constructor resizes
  \<open>interactive_marker_->controls\<close> to one element and lets \<open>visual_control_\<close> point at
  it: the record keeps that element in \<open>visual_control_m\<close>, the storage of its
  \<open>markers\<close> vector in \<open>markers_storage_m\<close>, and \<open>message\<close> is the marker
  \<open>*interactive_marker_\<close> that the server is given.
\<close>

record LinkMarker =
  link_m :: link_ptr
  is_ghost_m :: bool
  interactive_marker_m :: InteractiveMarker
  visual_control_m :: InteractiveMarkerControl
  markers_storage_m :: vector_storage
  render_mode_m :: RenderMode
  geometry_markers_m :: "geom_ptr \<rightharpoonup> MarkerPtr"

definition markers_vector :: "LinkMarker \<Rightarrow> Marker list \<times> vector_storage" where
  "markers_vector m = (markers (visual_control_m m), markers_storage_m m)"

definition message :: "LinkMarker \<Rightarrow> InteractiveMarker" where
  "message m = (interactive_marker_m m)\<lparr>controls := [visual_control_m m]\<rparr>"

definition kWorldFrameId :: string where
  "kWorldFrameId = ''/world''"

definition kGhostColor :: Vector where
  "kGhostColor = (0, 1, 0, 0.2)"

definition link :: "Environment \<Rightarrow> LinkMarker \<Rightarrow> Link option" where
  "link env m = links env (link_m m)"

definition link_id :: "Environment \<Rightarrow> Link \<Rightarrow> string" where
  "link_id env l = ''Environment['' @ string_of_int (EnvironmentId env) @ ''].KinBody[''
     @ LinkParentName l @ ''].Link['' @ LinkName l @ '']''"

text \<open>The constructor; \<open>BOOST_ASSERT(link)\<close> makes an empty pointer a failure.\<close>

definition LinkMarker_new :: "Environment \<Rightarrow> link_ptr \<Rightarrow> bool \<Rightarrow> error + LinkMarker" where
  "LinkMarker_new env p is_ghost =
     (case links env p of
        None \<Rightarrow> Inl NullPointerDereference
      | Some l \<Rightarrow>
          Inr \<lparr>link_m = p, is_ghost_m = is_ghost,
               interactive_marker_m = \<lparr>frame_id = kWorldFrameId, name = link_id env l,
                 description = [], pose = toROSPose (GetTransform l), scale = 0.25,
                 controls = []\<rparr>,
               visual_control_m = default_InteractiveMarkerControl\<lparr>
                 control_orientation := (0, 0, 0, 1),
                 control_name := link_id env l @ ''.Geometry[visual]'',
                 orientation_mode := INHERIT, interaction_mode := BUTTON,
                 always_visible := True\<rparr>,
               markers_storage_m = \<lparr>buffer = 0, capacity = 0\<rparr>,
               render_mode_m = kVisual, geometry_markers_m = Map.empty\<rparr>)"

text \<open>\<open>MarkerPtr LinkMarker::CreateGeometry(GeometryPtr)\<close>; \<open>None\<close> is the empty pointer.\<close>

definition CreateGeometry_of :: "bool \<Rightarrow> Geometry \<Rightarrow> Marker option" where
  "CreateGeometry_of is_ghost geometry =
     (let marker = default_Marker\<lparr>marker_pose := toROSPose (GetGeomTransform geometry)\<rparr>;
          marker = (if is_ghost then marker\<lparr>marker_color := toROSColor kGhostColor\<rparr>
                    else marker\<lparr>marker_color :=
                      (case toROSColor (GetDiffuseColor geometry) of
                         (r, g, b, a) \<Rightarrow> (r, g, b, 1 - GetTransparency geometry))\<rparr>);
          render_mesh_path = GetRenderFilename geometry;
          render_mesh_path = (if prefix ''__norenderif__'' render_mesh_path then []
                              else render_mesh_path)
      in if render_mesh_path \<noteq> [] then
           Some (marker\<lparr>marker_type := MESH_RESOURCE,
                   marker_scale := toROSVector (GetRenderScale geometry),
                   mesh_resource := ''file://'' @ render_mesh_path,
                   mesh_use_embedded_materials := \<not> is_ghost\<rparr>)
         else (case GetType geometry of
             GT_None \<Rightarrow> None
           | GT_Box \<Rightarrow> Some (marker\<lparr>marker_type := CUBE,
                         marker_scale := toROSVector (GetBoxExtents geometry)\<rparr>)
           | GT_Sphere \<Rightarrow> Some (marker\<lparr>marker_type := SPHERE,
                         marker_scale := (GetSphereRadius geometry, GetSphereRadius geometry,
                                          GetSphereRadius geometry)\<rparr>)
           | GT_Cylinder \<Rightarrow> Some (marker\<lparr>marker_type := CYLINDER,
                         marker_scale := (GetCylinderRadius geometry,
                                          GetCylinderRadius geometry,
                                          GetCylinderHeight geometry)\<rparr>)
           | GT_TriMesh \<Rightarrow> None
           | GT_Unknown k \<Rightarrow> None))"

text \<open>
  The loop of \<open>void LinkMarker::CreateGeometry()\<close> over the link's geometries, on the
  vector \<open>visual_control_->markers\<close> and the map \<open>geometry_markers_\<close>.
\<close>

fun CreateGeometry_loop ::
  "(geom_ptr \<Rightarrow> Geometry) \<Rightarrow> bool \<Rightarrow> geom_ptr list \<Rightarrow>
   (Marker list \<times> vector_storage) \<times> (geom_ptr \<rightharpoonup> MarkerPtr) \<Rightarrow>
   (Marker list \<times> vector_storage) \<times> (geom_ptr \<rightharpoonup> MarkerPtr)" where
  "CreateGeometry_loop h is_ghost [] acc = acc"
| "CreateGeometry_loop h is_ghost (g # gs) (v, gm) =
     (if \<not> IsVisible (h g) then CreateGeometry_loop h is_ghost gs (v, gm)
      else (case CreateGeometry_of is_ghost (h g) of
              Some new_marker \<Rightarrow>
                (let v = push_back new_marker v
                 in CreateGeometry_loop h is_ghost gs (v, gm(g \<mapsto> address_of_back v)))
            | None \<Rightarrow> CreateGeometry_loop h is_ghost gs (v, gm(g \<mapsto> NULL))))"

definition CreateGeometry :: "Environment \<Rightarrow> LinkMarker \<Rightarrow> error + LinkMarker" where
  "CreateGeometry env m =
     (case link env m of
        None \<Rightarrow> Inl NullPointerDereference
      | Some l \<Rightarrow>
          (case CreateGeometry_loop (geometries env) (is_ghost_m m) (GetGeometries l)
                  (([], markers_storage_m m), Map.empty) of
             ((ms, st), gm) \<Rightarrow>
               Inr (m\<lparr>visual_control_m := (visual_control_m m)\<lparr>markers := ms\<rparr>,
                      markers_storage_m := st, geometry_markers_m := gm\<rparr>)))"

text \<open>
  The pointers of the map and the vector: allocations are numbered upwards, so a pointer
  never names a later buffer than the current one; a pointer into the current buffer is
  in range and the primitive there is the one made from its geometry.
\<close>

definition pointers_ok ::
  "(geom_ptr \<Rightarrow> Geometry) \<Rightarrow> bool \<Rightarrow> (Marker list \<times> vector_storage) \<times> (geom_ptr \<rightharpoonup> MarkerPtr)
   \<Rightarrow> bool" where
  "pointers_ok h gh acc =
     (\<forall>g b i. snd acc g = Some (MarkerAddr b i) \<longrightarrow>
        b \<le> buffer (snd (fst acc)) \<and>
        (b = buffer (snd (fst acc)) \<longrightarrow>
           i < length (fst (fst acc)) \<and> CreateGeometry_of gh (h g) = Some (fst (fst acc) ! i)))"

definition SetRenderMode :: "RenderMode \<Rightarrow> LinkMarker \<Rightarrow> LinkMarker" where
  "SetRenderMode mode m = m\<lparr>render_mode_m := mode\<rparr>"

text \<open>The change-detection loop of \<open>LinkMarker::EnvironmentSync\<close>, with its \<open>break\<close>.\<close>

fun detect_change ::
  "(geom_ptr \<Rightarrow> Geometry) \<Rightarrow> (geom_ptr \<rightharpoonup> MarkerPtr) \<Rightarrow> geom_ptr list \<Rightarrow> bool \<Rightarrow> bool" where
  "detect_change h gm [] is_changed = is_changed"
| "detect_change h gm (g # gs) is_changed =
     (let is_missing = (gm g = None);
          is_visible = IsVisible (h g);
          is_changed = (is_changed \<or> (is_visible = is_missing))
      in if is_changed then is_changed else detect_change h gm gs is_changed)"

definition LinkMarker_EnvironmentSync ::
  "Environment \<Rightarrow> LinkMarker \<Rightarrow> server \<Rightarrow> (error + LinkMarker) \<times> server" where
  "LinkMarker_EnvironmentSync env m srv =
     (case link env m of
        None \<Rightarrow> (Inl NullPointerDereference, srv)
      | Some l \<Rightarrow>
          if detect_change (geometries env) (geometry_markers_m m) (GetGeometries l) False then
            (case CreateGeometry env m of
               Inl e \<Rightarrow> (Inl e, srv)
             | Inr m' \<Rightarrow> (Inr m', srv @ [Insert (message m')]))
          else
            (Inr m, srv @ [SetPose (name (interactive_marker_m m)) (toROSPose (GetTransform l))]))"

section \<open>JointMarker\<close>

text \<open>
  What \<open>JointMarker\<close> uses and the sources do not define: the routines of
  \<open>openrave/geometry.h\<close> and the constant \<open>kDefaultWorldFrameId\<close>. They are parameters of
  the model.
\<close>

record externals =
  transformLookat :: "Vector \<Rightarrow> Vector \<Rightarrow> Vector \<Rightarrow> Transform"
  axisAngleFromQuat :: "Vector \<Rightarrow> Vector"
  transform_inverse :: "Transform \<Rightarrow> Transform"
  transform_mult :: "Transform \<Rightarrow> Transform \<Rightarrow> Transform"
  kDefaultWorldFrameId :: string

record JointMarker =
  joint_m :: joint_ptr
  joint_pose_m :: Transform
  joint_initial_m :: real
  joint_delta_m :: real
  created_m :: bool
  force_update_m :: bool
  active_m :: bool
  marker_m :: InteractiveMarker

datatype EventType = KEEP_ALIVE | POSE_UPDATE | MENU_SELECT | BUTTON_CLICK | MOUSE_DOWN
  | MOUSE_UP

record InteractiveMarkerFeedback =
  event_type :: EventType
  feedback_pose :: Transform

definition GetJointPose :: "externals \<Rightarrow> Joint \<Rightarrow> Transform" where
  "GetJointPose X j = (transformLookat X (0, 0, 0, 0) (GetAxis j) (1, 0, 0, 0))
     \<lparr>trans := GetAnchor j\<rparr>"

definition joint :: "Environment \<Rightarrow> JointMarker \<Rightarrow> Joint option" where
  "joint env m = joints env (joint_m m)"

definition joint_id :: "Environment \<Rightarrow> Joint \<Rightarrow> string" where
  "joint_id env j = ''Environment['' @ string_of_int (EnvironmentId env) @ ''].KinBody[''
     @ JointParentName j @ ''].Joint['' @ JointName j @ '']''"

definition JointMarker_pose :: "JointMarker \<Rightarrow> Transform" where
  "JointMarker_pose m = joint_pose_m m"

definition rotate_control :: InteractiveMarkerControl where
  "rotate_control = default_InteractiveMarkerControl\<lparr>
     control_orientation := (0, 1, 0, 1), control_name := ''rotate'',
     interaction_mode := ROTATE_AXIS\<rparr>"

text \<open>
  The constructor. The member initialisers read the joint before \<open>BOOST_ASSERT(joint)\<close>,
  so an empty pointer fails there. The three early returns leave \<open>marker_\<close> as it was
  default-constructed and call nothing on the server.
\<close>

definition JointMarker_new ::
  "externals \<Rightarrow> Environment \<Rightarrow> server \<Rightarrow> joint_ptr \<Rightarrow> (error + JointMarker) \<times> server" where
  "JointMarker_new X env srv p =
     (case joints env p of
        None \<Rightarrow> (Inl NullPointerDereference, srv)
      | Some j \<Rightarrow>
          (let m = \<lparr>joint_m = p, joint_pose_m = GetJointPose X j,
                     joint_initial_m = GetValue0 j, joint_delta_m = 0, created_m = False,
                     force_update_m = True, active_m = False,
                     marker_m = default_InteractiveMarker\<rparr>
           in if JointGetType j \<noteq> JointRevolute then (Inr m, srv)
              else if IsStatic j then (Inr m, srv)
              else if IsMimic j then (Inr m, srv)
              else
                (let m = m\<lparr>marker_m := \<lparr>frame_id = kDefaultWorldFrameId X,
                           name = joint_id env j, description = [],
                           pose = toROSPose (JointMarker_pose m), scale = 0.25,
                           controls = [rotate_control]\<rparr>\<rparr>
                 in (Inr m, srv @ [Insert (marker_m m), SetCallback (name (marker_m m))]))))"

definition JointMarker_delete :: "JointMarker \<Rightarrow> server \<Rightarrow> server" where
  "JointMarker_delete m srv = srv @ [Erase (name (marker_m m))]"

definition set_pose :: "Transform \<Rightarrow> JointMarker \<Rightarrow> JointMarker" where
  "set_pose p m = (if \<not> active_m m then m\<lparr>joint_pose_m := p\<rparr> else m)"

definition angle :: "JointMarker \<Rightarrow> real" where
  "angle m = joint_initial_m m + joint_delta_m m"

definition set_parent_frame :: "string \<Rightarrow> JointMarker \<Rightarrow> JointMarker" where
  "set_parent_frame f m = m\<lparr>marker_m := (marker_m m)\<lparr>frame_id := f\<rparr>, force_update_m := True\<rparr>"

text \<open>\<open>bool JointMarker::EnvironmentSync()\<close>: the returned flag and the new state.\<close>

definition JointMarker_EnvironmentSync ::
  "Environment \<Rightarrow> JointMarker \<Rightarrow> server \<Rightarrow> (error + bool \<times> JointMarker) \<times> server" where
  "JointMarker_EnvironmentSync env m srv =
     (let (m, srv) = (if force_update_m m
                      then (m\<lparr>force_update_m := False\<rparr>, srv @ [Insert (marker_m m)])
                      else (m, srv));
          srv = srv @ [SetPose (name (marker_m m)) (toROSPose (JointMarker_pose m))]
      in if \<not> active_m m then
           (case joint env m of
              None \<Rightarrow> (Inl NullPointerDereference, srv)
            | Some j \<Rightarrow>
                (Inr (False, m\<lparr>joint_initial_m := GetValue0 j, joint_delta_m := 0,
                               created_m := True\<rparr>), srv))
         else (Inr (False, m\<lparr>created_m := True\<rparr>), srv))"

definition JointCallback ::
  "externals \<Rightarrow> InteractiveMarkerFeedback \<Rightarrow> JointMarker \<Rightarrow> JointMarker" where
  "JointCallback X feedback m =
     (if event_type feedback = MOUSE_DOWN then m\<lparr>active_m := True\<rparr>
      else if event_type feedback = MOUSE_UP then m\<lparr>active_m := False\<rparr>
      else if event_type feedback = POSE_UPDATE then
        (let p = transform_mult X (transform_inverse X (JointMarker_pose m))
                   (toORPose (feedback_pose feedback));
             axis_angle = axisAngleFromQuat X (rot p)
         in case axis_angle of (x, y, z, w) \<Rightarrow> m\<lparr>joint_delta_m := - z\<rparr>)
      else m)"

text \<open>
  The operations that reach a \<open>JointMarker\<close> during its life, in the order the owner and
  the server make them; a tick carries the environment as it is at that tick.
\<close>

datatype JointMarker_op =
    Tick Environment
  | Set_pose Transform
  | Set_parent_frame string
  | Feedback InteractiveMarkerFeedback

definition JointMarker_step ::
  "externals \<Rightarrow> JointMarker_op \<Rightarrow> JointMarker \<Rightarrow> server \<Rightarrow> (error + JointMarker) \<times> server" where
  "JointMarker_step X op m srv =
     (case op of
        Tick env \<Rightarrow>
          (case JointMarker_EnvironmentSync env m srv of
             (Inl e, srv') \<Rightarrow> (Inl e, srv')
           | (Inr (r, m'), srv') \<Rightarrow> (Inr m', srv'))
      | Set_pose p \<Rightarrow> (Inr (set_pose p m), srv)
      | Set_parent_frame f \<Rightarrow> (Inr (set_parent_frame f m), srv)
      | Feedback fb \<Rightarrow> (Inr (JointCallback X fb m), srv))"

fun JointMarker_run ::
  "externals \<Rightarrow> JointMarker_op list \<Rightarrow> JointMarker \<Rightarrow> server \<Rightarrow> (error + JointMarker) \<times> server" where
  "JointMarker_run X [] m srv = (Inr m, srv)"
| "JointMarker_run X (op # ops) m srv =
     (case JointMarker_step X op m srv of
        (Inl e, srv') \<Rightarrow> (Inl e, srv')
      | (Inr m', srv') \<Rightarrow> JointMarker_run X ops m' srv')"

definition is_mouse_up :: "JointMarker_op \<Rightarrow> bool" where
  "is_mouse_up op = (case op of Feedback fb \<Rightarrow> event_type fb = MOUSE_UP | _ \<Rightarrow> False)"

definition is_pose_update :: "JointMarker_op \<Rightarrow> bool" where
  "is_pose_update op = (case op of Feedback fb \<Rightarrow> event_type fb = POSE_UPDATE | _ \<Rightarrow> False)"

section \<open>SuperViewer\<close>

text \<open>
  \<open>SuperViewer::EnvironmentSync\<close> makes one \<open>rviz::ShapeMarker\<close> for each geometry it
  reaches and gives it \<open>markerMsg\<close>; the result is the list of these messages, in order.
\<close>

definition markerMsg :: "externals \<Rightarrow> Link \<Rightarrow> Geometry \<Rightarrow> Marker" where
  "markerMsg X l geometry =
     (let t = transform_mult X (GetTransform l) (GetGeomTransform geometry)
      in default_Marker\<lparr>
           marker_frame_id := ''world'',
           marker_color := (case GetDiffuseColor geometry of (x, y, z, w) \<Rightarrow> (x, y, z, 1)),
           marker_scale := (case AABBExtents geometry of (x, y, z, w) \<Rightarrow> (x, y, z)),
           marker_pose := \<lparr>rot = rot t, trans = trans t\<rparr>,
           marker_type := CUBE\<rparr>)"

text \<open>
  The loop over \<open>k\<close>: \<open>continue\<close> on a NaN bounding box goes to the next geometry; the
  \<open>break\<close> after the \<open>switch\<close> leaves the loop once one message has been made.
\<close>

fun geoms_loop ::
  "externals \<Rightarrow> (geom_ptr \<Rightarrow> Geometry) \<Rightarrow> Link \<Rightarrow> geom_ptr list \<Rightarrow> Marker list \<Rightarrow> Marker list" where
  "geoms_loop X h l [] shown = shown"
| "geoms_loop X h l (k # ks) shown =
     (if AABBExtentsXIsNan (h k) then geoms_loop X h l ks shown
      else shown @ [markerMsg X l (h k)])"

text \<open>
  The loop over \<open>j\<close>: its body reads \<open>links.at(i)\<close>, with the index \<open>i\<close> of the body, and
  ends in \<open>break\<close>, so it runs once when the body has a link and not at all otherwise.
\<close>

definition links_loop ::
  "externals \<Rightarrow> Environment \<Rightarrow> nat \<Rightarrow> link_ptr list \<Rightarrow> Marker list \<Rightarrow> error + Marker list" where
  "links_loop X env i lnks shown =
     (if 0 < length lnks then
        (if i < length lnks then
           (case links env (lnks ! i) of
              None \<Rightarrow> Inl NullPointerDereference
            | Some l \<Rightarrow> Inr (geoms_loop X (geometries env) l (GetGeometries l) shown))
         else Inl OutOfRange)
      else Inr shown)"

text \<open>
  The loop over \<open>i\<close> also ends in \<open>break\<close>: its body runs for \<open>i = 0\<close> only.
  \<open>boxDisplay\<close> tells whether \<open>createDisplay\<close> returned a display; without one the
  function returns at once. The environment mutex is not modelled.
\<close>

definition SuperViewer_EnvironmentSync ::
  "externals \<Rightarrow> bool \<Rightarrow> Environment \<Rightarrow> error + Marker list" where
  "SuperViewer_EnvironmentSync X boxDisplay env =
     (let bodies = GetBodies env
      in if \<not> boxDisplay then Inr []
         else if 0 < length bodies then links_loop X env 0 (GetLinks (bodies ! 0)) []
         else Inr [])"

section \<open>Renderable content, in the words of the specification\<close>

text \<open>
  A geometry has a render-mesh path when its render filename is not empty and is not the
  marker \<open>__norenderif__\<close> that suppresses it. It has renderable content unless it is of
  kind none, triangle mesh or unknown and has no render-mesh path.
\<close>

definition has_render_mesh_path :: "Geometry \<Rightarrow> bool" where
  "has_render_mesh_path g =
     (GetRenderFilename g \<noteq> [] \<and> \<not> prefix ''__norenderif__'' (GetRenderFilename g))"

definition has_renderable_content :: "Geometry \<Rightarrow> bool" where
  "has_renderable_content g =
     (\<not> (\<not> has_render_mesh_path g \<and>
         (case GetType g of GT_None \<Rightarrow> True | GT_TriMesh \<Rightarrow> True | GT_Unknown k \<Rightarrow> True
          | _ \<Rightarrow> False)))"

section \<open>A concrete scene\<close>

text \<open>
  Two bodies with one link each; the first link has a visible and a hidden box, and the
  scene has a revolute and a prismatic joint. \<open>ex_externals\<close> puts simple functions in the
  place of the OpenRAVE geometry routines.
\<close>

definition ex_box :: Geometry where
  "ex_box = \<lparr>IsVisible = True, GetType = GT_Box, GetRenderFilename = [],
     GetRenderScale = (1, 1, 1, 0), GetGeomTransform = default_Transform,
     GetDiffuseColor = (1, 0, 0, 0), GetTransparency = 0, GetBoxExtents = (1, 2, 3, 0),
     GetSphereRadius = 0, GetCylinderRadius = 0, GetCylinderHeight = 0,
     AABBExtents = (1, 2, 3, 0), AABBExtentsXIsNan = False\<rparr>"

definition ex_hidden :: Geometry where
  "ex_hidden = ex_box\<lparr>IsVisible := False\<rparr>"

definition ex_link :: Link where
  "ex_link = \<lparr>LinkName = ''base'', LinkParentName = ''robot'',
     GetTransform = default_Transform, GetGeometries = [0, 1]\<rparr>"

definition ex_link2 :: Link where
  "ex_link2 = \<lparr>LinkName = ''top'', LinkParentName = ''table'',
     GetTransform = default_Transform, GetGeometries = [0]\<rparr>"

definition ex_hinge :: Joint where
  "ex_hinge = \<lparr>JointName = ''elbow'', JointParentName = ''robot'',
     JointGetType = JointRevolute, IsStatic = False, IsMimic = False, GetValue0 = 1 / 2,
     GetAxis = (0, 0, 1, 0), GetAnchor = (0, 0, 1, 0)\<rparr>"

definition ex_slider :: Joint where
  "ex_slider = ex_hinge\<lparr>JointName := ''rail'', JointGetType := JointPrismatic\<rparr>"

definition ex_env :: Environment where
  "ex_env = \<lparr>EnvironmentId = 1,
     GetBodies = [\<lparr>BodyName = ''robot'', GetLinks = [0]\<rparr>,
                  \<lparr>BodyName = ''table'', GetLinks = [1]\<rparr>],
     links = [0 \<mapsto> ex_link, 1 \<mapsto> ex_link2],
     joints = [0 \<mapsto> ex_hinge, 1 \<mapsto> ex_slider],
     geometries = (\<lambda>p. if p = 0 then ex_box else ex_hidden)\<rparr>"

definition ex_env_expired :: Environment where
  "ex_env_expired = ex_env\<lparr>links := Map.empty, joints := Map.empty\<rparr>"

definition ex_externals :: externals where
  "ex_externals = \<lparr>transformLookat = (\<lambda>a b c. default_Transform),
     axisAngleFromQuat = (\<lambda>q. q), transform_inverse = (\<lambda>t. t),
     transform_mult = (\<lambda>a b. b), kDefaultWorldFrameId = ''/world''\<rparr>"

definition ex_link_marker :: LinkMarker where
  "ex_link_marker = projr (LinkMarker_new ex_env 0 False)"

definition ex_joint_marker :: JointMarker where
  "ex_joint_marker = projr (fst (JointMarker_new ex_externals ex_env [] 0))"

definition ex_slider_marker :: JointMarker where
  "ex_slider_marker = projr (fst (JointMarker_new ex_externals ex_env [] 1))"

text \<open>
  The link marker after its first tick in the scene; the scene with the hidden box shown,
  and a fresh link marker after \<open>CreateGeometry\<close> in it; the scene with the hinge
  turned; a drag on the hinge's marker.
\<close>

definition ex_synced_marker :: LinkMarker where
  "ex_synced_marker = projr (fst (LinkMarker_EnvironmentSync ex_env ex_link_marker []))"

definition ex_env_shown :: Environment where
  "ex_env_shown = ex_env\<lparr>geometries := (\<lambda>p. ex_box)\<rparr>"

definition ex_shown_marker :: LinkMarker where
  "ex_shown_marker = projr (CreateGeometry ex_env_shown ex_link_marker)"

definition ex_env_turned :: Environment where
  "ex_env_turned = ex_env\<lparr>joints := [0 \<mapsto> ex_hinge\<lparr>GetValue0 := 1\<rparr>, 1 \<mapsto> ex_slider]\<rparr>"

definition ex_down :: InteractiveMarkerFeedback where
  "ex_down = \<lparr>event_type = MOUSE_DOWN, feedback_pose = default_Transform\<rparr>"

definition ex_update :: InteractiveMarkerFeedback where
  "ex_update = \<lparr>event_type = POSE_UPDATE, feedback_pose = \<lparr>rot = (0, 0, 1 / 4, 1), trans = (0, 0, 1, 0)\<rparr>\<rparr>"

definition ex_dragged_marker :: JointMarker where
  "ex_dragged_marker = JointCallback ex_externals ex_down ex_joint_marker"

definition ex_ops :: "JointMarker_op list" where
  "ex_ops = [Tick ex_env_turned, Set_pose default_Transform, Feedback ex_update,
     Set_parent_frame ''/map'', Tick ex_env_expired]"

section \<open>Properties\<close>

subsection \<open>The loops of LinkMarker\<close>

lemma detect_change_iff:
  "detect_change h gm gs c = (c \<or> (\<exists>g\<in>set gs. IsVisible (h g) = (gm g = None)))"
  by (induction gs arbitrary: c) (auto simp: Let_def)

lemma CreateGeometry_of_None_iff:
  "CreateGeometry_of gh g = None \<longleftrightarrow> \<not> has_renderable_content g"
  by (auto simp: CreateGeometry_of_def has_renderable_content_def has_render_mesh_path_def
      Let_def split: GeometryType.splits)

lemma length_push_back: "length (fst (push_back x v)) = Suc (length (fst v))"
  by (simp add: push_back_def)

lemma CreateGeometry_loop_dom:
  "dom (snd (CreateGeometry_loop h gh gs (v, gm))) = dom gm \<union> {g \<in> set gs. IsVisible (h g)}"
  by (induction gs arbitrary: v gm) (auto simp: Let_def split: option.splits)

lemma CreateGeometry_loop_length:
  "length (fst (fst (CreateGeometry_loop h gh gs (v, gm)))) =
     length (fst v) +
     length (filter (\<lambda>g. IsVisible (h g) \<and> CreateGeometry_of gh (h g) \<noteq> None) gs)"
  by (induction gs arbitrary: v gm) (auto simp: Let_def length_push_back split: option.splits)

lemma CreateGeometry_loop_other:
  "g \<notin> set gs \<Longrightarrow> snd (CreateGeometry_loop h gh gs (v, gm)) g = gm g"
  by (induction gs arbitrary: v gm) (auto simp: Let_def split: option.splits)

lemma CreateGeometry_loop_entry:
  "g \<in> set gs \<Longrightarrow> IsVisible (h g) \<Longrightarrow>
   \<exists>p. snd (CreateGeometry_loop h gh gs (v, gm)) g = Some p \<and>
       (p = NULL \<longleftrightarrow> CreateGeometry_of gh (h g) = None)"
proof (induction gs arbitrary: v gm)
  case Nil
  then show ?case by simp
next
  case (Cons a gs)
  show ?case
  proof (cases "g \<in> set gs")
    case True
    with Cons show ?thesis by (auto simp: Let_def split: option.splits)
  next
    case False
    with Cons.prems have ga: "a = g" by simp
    show ?thesis
      using False Cons.prems(2) unfolding ga
      by (auto simp: CreateGeometry_loop_other Let_def address_of_back_def
          split: option.splits prod.splits)
  qed
qed

lemma pointers_ok_NULL:
  assumes "pointers_ok h gh (v, gm)"
  shows "pointers_ok h gh (v, gm(g \<mapsto> NULL))"
  using assms unfolding pointers_ok_def by simp

lemma pointers_ok_push_back:
  assumes ok: "pointers_ok h gh (v, gm)" and new: "CreateGeometry_of gh (h g) = Some x"
  shows "pointers_ok h gh (push_back x v, gm(g \<mapsto> address_of_back (push_back x v)))"
proof (cases v)
  case (Pair ms st)
  define v' where "v' = push_back x v"
  have elems: "fst v' = ms @ [x]"
    by (simp add: v'_def Pair push_back_def)
  have buf: "buffer (snd v') = buffer st \<or> buffer (snd v') = Suc (buffer st)"
    by (simp add: v'_def Pair push_back_def)
  have addr: "address_of_back v' = MarkerAddr (buffer (snd v')) (length ms)"
    using elems by (simp add: address_of_back_def)
  have old: "b \<le> buffer st \<and>
      (b = buffer st \<longrightarrow> i < length ms \<and> CreateGeometry_of gh (h g') = Some (ms ! i))"
    if "gm g' = Some (MarkerAddr b i)" for g' b i
    using ok that unfolding pointers_ok_def Pair by simp
  have "b \<le> buffer (snd v') \<and>
      (b = buffer (snd v') \<longrightarrow>
         i < length (fst v') \<and> CreateGeometry_of gh (h g') = Some (fst v' ! i))"
    if entry: "(gm(g \<mapsto> address_of_back v')) g' = Some (MarkerAddr b i)" for g' b i
  proof (cases "g' = g")
    case True
    with entry addr have "b = buffer (snd v')" "i = length ms" by simp_all
    with True new elems show ?thesis by simp
  next
    case False
    with entry have "gm g' = Some (MarkerAddr b i)" by simp
    from old [OF this] buf elems show ?thesis by (auto simp: nth_append)
  qed
  then show ?thesis unfolding pointers_ok_def v'_def by simp
qed

lemma CreateGeometry_loop_pointers:
  "pointers_ok h gh (v, gm) \<Longrightarrow> pointers_ok h gh (CreateGeometry_loop h gh gs (v, gm))"
proof (induction gs arbitrary: v gm)
  case Nil
  then show ?case by simp
next
  case (Cons g gs)
  show ?case
  proof (cases "IsVisible (h g)")
    case False
    with Cons show ?thesis by simp
  next
    case True
    show ?thesis
    proof (cases "CreateGeometry_of gh (h g)")
      case None
      have "pointers_ok h gh (v, gm(g \<mapsto> NULL))"
        using Cons.prems by (rule pointers_ok_NULL)
      then have "pointers_ok h gh (CreateGeometry_loop h gh gs (v, gm(g \<mapsto> NULL)))"
        by (rule Cons.IH)
      with True None show ?thesis by simp
    next
      case (Some x)
      have "pointers_ok h gh (push_back x v, gm(g \<mapsto> address_of_back (push_back x v)))"
        using Cons.prems Some by (rule pointers_ok_push_back)
      then have "pointers_ok h gh (CreateGeometry_loop h gh gs
          (push_back x v, gm(g \<mapsto> address_of_back (push_back x v))))"
        by (rule Cons.IH)
      with True Some show ?thesis by (simp add: Let_def)
    qed
  qed
qed

lemma CreateGeometry_live:
  assumes "link env m = Some l"
  shows "CreateGeometry env m =
           Inr (m\<lparr>visual_control_m := (visual_control_m m)\<lparr>markers :=
                    fst (fst (CreateGeometry_loop (geometries env) (is_ghost_m m)
                           (GetGeometries l) (([], markers_storage_m m), Map.empty)))\<rparr>,
                  markers_storage_m :=
                    snd (fst (CreateGeometry_loop (geometries env) (is_ghost_m m)
                           (GetGeometries l) (([], markers_storage_m m), Map.empty))),
                  geometry_markers_m :=
                    snd (CreateGeometry_loop (geometries env) (is_ghost_m m)
                           (GetGeometries l) (([], markers_storage_m m), Map.empty))\<rparr>)"
  using assms by (simp add: CreateGeometry_def split: prod.splits)

lemma CreateGeometry_unchanged:
  assumes "CreateGeometry env m = Inr m'"
  shows "link_m m' = link_m m \<and> is_ghost_m m' = is_ghost_m m \<and>
         interactive_marker_m m' = interactive_marker_m m \<and> render_mode_m m' = render_mode_m m"
  using assms by (auto simp: CreateGeometry_def split: option.splits prod.splits)

lemma CreateGeometry_consistent:
  assumes "CreateGeometry env m = Inr m'" and "link env m = Some l"
  shows "\<forall>g\<in>set (GetGeometries l).
           IsVisible (geometries env g) = (geometry_markers_m m' g \<noteq> None)"
proof -
  from assms have "geometry_markers_m m' =
      snd (CreateGeometry_loop (geometries env) (is_ghost_m m) (GetGeometries l)
             (([], markers_storage_m m), Map.empty))"
    by (auto simp: CreateGeometry_live)
  then have "dom (geometry_markers_m m') =
      {g \<in> set (GetGeometries l). IsVisible (geometries env g)}"
    by (simp add: CreateGeometry_loop_dom)
  then show ?thesis by (auto simp: dom_def)
qed

lemma EnvironmentSync_changed:
  assumes "link env m = Some l"
    and "detect_change (geometries env) (geometry_markers_m m) (GetGeometries l) False"
  shows "\<exists>m'. CreateGeometry env m = Inr m' \<and>
              LinkMarker_EnvironmentSync env m srv = (Inr m', srv @ [Insert (message m')])"
  using assms by (simp add: LinkMarker_EnvironmentSync_def CreateGeometry_live)

lemma EnvironmentSync_unchanged:
  assumes "link env m = Some l"
    and "\<not> detect_change (geometries env) (geometry_markers_m m) (GetGeometries l) False"
  shows "LinkMarker_EnvironmentSync env m srv =
           (Inr m, srv @ [SetPose (name (interactive_marker_m m)) (toROSPose (GetTransform l))])"
  using assms by (simp add: LinkMarker_EnvironmentSync_def)

lemma EnvironmentSync_consistent:
  assumes sync: "LinkMarker_EnvironmentSync env m0 s0 = (Inr m1, s1)"
    and live: "link env m0 = Some l"
  shows "link_m m1 = link_m m0 \<and>
         (\<forall>g\<in>set (GetGeometries l).
            IsVisible (geometries env g) = (geometry_markers_m m1 g \<noteq> None))"
proof (cases "detect_change (geometries env) (geometry_markers_m m0) (GetGeometries l) False")
  case True
  from EnvironmentSync_changed [OF live True, of s0] sync
  have cg: "CreateGeometry env m0 = Inr m1" by auto
  from CreateGeometry_unchanged [OF cg] CreateGeometry_consistent [OF cg live]
  show ?thesis by simp
next
  case False
  from EnvironmentSync_unchanged [OF live False, of s0] sync have "m1 = m0" by simp
  with False show ?thesis by (auto simp: detect_change_iff)
qed

subsection \<open>The link marker of the concrete scene\<close>

lemma ex_link_marker_fields:
  "link_m ex_link_marker = 0" "is_ghost_m ex_link_marker = False"
  "geometry_markers_m ex_link_marker = Map.empty"
  "markers_storage_m ex_link_marker = \<lparr>buffer = 0, capacity = 0\<rparr>"
  "render_mode_m ex_link_marker = kVisual"
  by (simp_all add: ex_link_marker_def LinkMarker_new_def ex_env_def)

lemma ex_link_live: "link ex_env ex_link_marker = Some ex_link"
  by (simp add: link_def ex_link_marker_fields ex_env_def)

lemma ex_geometries:
  "geometries ex_env 0 = ex_box" "geometries ex_env (Suc 0) = ex_hidden"
  "GetGeometries ex_link = [0, 1]"
  "IsVisible ex_box" "\<not> IsVisible ex_hidden"
  by (simp_all add: ex_env_def ex_link_def ex_box_def ex_hidden_def)

lemma ex_box_renderable: "has_renderable_content ex_box"
  by (simp add: has_renderable_content_def has_render_mesh_path_def ex_box_def)

lemma ex_first_changed:
  "detect_change (geometries ex_env) (geometry_markers_m ex_link_marker) (GetGeometries ex_link) False"
  by (simp add: ex_geometries ex_link_marker_fields)

lemma ex_first_sync:
  "LinkMarker_EnvironmentSync ex_env ex_link_marker [] =
     (Inr ex_synced_marker, [Insert (message ex_synced_marker)])"
  using EnvironmentSync_changed [OF ex_link_live ex_first_changed, of "[]"]
  by (auto simp: ex_synced_marker_def)

lemma ex_box_marker:
  "\<exists>c. CreateGeometry_of False ex_box = Some c \<and> marker_type c = CUBE \<and> marker_scale c = (1, 2, 3)"
  by (simp add: CreateGeometry_of_def ex_box_def Let_def toROSVector_def)

lemma ex_CreateGeometry: "CreateGeometry ex_env ex_link_marker = Inr ex_synced_marker"
  using EnvironmentSync_changed [OF ex_link_live ex_first_changed, of "[]"] ex_first_sync
  by auto

lemma ex_scene_loop:
  assumes c: "CreateGeometry_of False ex_box = Some c"
  shows "CreateGeometry_loop (geometries ex_env) False (GetGeometries ex_link)
           (([], \<lparr>buffer = 0, capacity = 0\<rparr>), Map.empty) =
         (([c], \<lparr>buffer = 1, capacity = 1\<rparr>), [0 \<mapsto> MarkerAddr 1 0])"
  by (simp add: ex_geometries c push_back_def address_of_back_def grown_capacity_def Let_def)

lemma ex_shown_geometries: "geometries ex_env_shown p = ex_box"
  by (simp add: ex_env_shown_def)

lemma ex_shown_loop:
  assumes c: "CreateGeometry_of False ex_box = Some c"
  shows "CreateGeometry_loop (geometries ex_env_shown) False (GetGeometries ex_link)
           (([], \<lparr>buffer = 0, capacity = 0\<rparr>), Map.empty) =
         (([c, c], \<lparr>buffer = 2, capacity = 2\<rparr>),
          [0 \<mapsto> MarkerAddr 1 0, 1 \<mapsto> MarkerAddr 2 1])"
  by (simp add: ex_geometries ex_shown_geometries c push_back_def address_of_back_def
      grown_capacity_def Let_def numeral_2_eq_2)

lemma ex_synced_fields:
  "link_m ex_synced_marker = 0"
  "geometry_markers_m ex_synced_marker 0 = Some (MarkerAddr 1 0)"
  "geometry_markers_m ex_synced_marker (Suc 0) = None"
  "length (markers (visual_control_m ex_synced_marker)) = 1"
  "buffer (markers_storage_m ex_synced_marker) = 1"
proof -
  from ex_box_marker obtain c where c: "CreateGeometry_of False ex_box = Some c" by blast
  from ex_CreateGeometry CreateGeometry_live [OF ex_link_live]
  have eq: "ex_synced_marker = ex_link_marker\<lparr>visual_control_m :=
            (visual_control_m ex_link_marker)\<lparr>markers := [c]\<rparr>,
          markers_storage_m := \<lparr>buffer = 1, capacity = 1\<rparr>,
          geometry_markers_m := [0 \<mapsto> MarkerAddr 1 0]\<rparr>"
    by (simp add: ex_link_marker_fields ex_scene_loop [OF c])
  show "link_m ex_synced_marker = 0"
    "geometry_markers_m ex_synced_marker 0 = Some (MarkerAddr 1 0)"
    "geometry_markers_m ex_synced_marker (Suc 0) = None"
    "length (markers (visual_control_m ex_synced_marker)) = 1"
    "buffer (markers_storage_m ex_synced_marker) = 1"
    unfolding eq by (simp_all add: ex_link_marker_fields)
qed

lemma ex_shown_live: "link ex_env_shown ex_link_marker = Some ex_link"
  by (simp add: link_def ex_link_marker_fields ex_env_def ex_env_shown_def)

lemma ex_shown_CreateGeometry:
  "CreateGeometry ex_env_shown ex_link_marker = Inr ex_shown_marker"
  by (simp add: ex_shown_marker_def CreateGeometry_live [OF ex_shown_live])

lemma ex_shown_fields:
  "geometry_markers_m ex_shown_marker 0 = Some (MarkerAddr 1 0)"
  "geometry_markers_m ex_shown_marker 1 = Some (MarkerAddr 2 1)"
  "length (markers (visual_control_m ex_shown_marker)) = 2"
  "buffer (markers_storage_m ex_shown_marker) = 2"
proof -
  from ex_box_marker obtain c where c: "CreateGeometry_of False ex_box = Some c" by blast
  from ex_shown_CreateGeometry CreateGeometry_live [OF ex_shown_live]
  have eq: "ex_shown_marker = ex_link_marker\<lparr>visual_control_m :=
            (visual_control_m ex_link_marker)\<lparr>markers := [c, c]\<rparr>,
          markers_storage_m := \<lparr>buffer = 2, capacity = 2\<rparr>,
          geometry_markers_m := [0 \<mapsto> MarkerAddr 1 0, 1 \<mapsto> MarkerAddr 2 1]\<rparr>"
    by (simp add: ex_link_marker_fields ex_shown_loop [OF c])
  show "geometry_markers_m ex_shown_marker 0 = Some (MarkerAddr 1 0)"
    "geometry_markers_m ex_shown_marker 1 = Some (MarkerAddr 2 1)"
    "length (markers (visual_control_m ex_shown_marker)) = 2"
    "buffer (markers_storage_m ex_shown_marker) = 2"
    unfolding eq by simp_all
qed

lemma ex_synced_live: "link ex_env ex_synced_marker = Some ex_link"
  by (simp add: link_def ex_synced_fields ex_env_def)

lemma ex_synced_live_shown: "link ex_env_shown ex_synced_marker = Some ex_link"
  by (simp add: link_def ex_synced_fields ex_env_def ex_env_shown_def)

subsection \<open>LinkMarker: change detection and recreation\<close>

text \<open>
  Claim C2. Two consecutive calls of \<open>LinkMarker::EnvironmentSync\<close>, the first one
  returning: if the link's geometry set is the same at the second call and no geometry of
  it has changed its visibility flag, the second call leaves the marker as it is and its
  only call on the server is \<open>setPose\<close> with the link's current transform. There is no
  \<open>CreateGeometry\<close> and no \<open>insert\<close>.
\<close>

theorem LinkMarker_second_sync_pose_only:
  assumes first: "LinkMarker_EnvironmentSync env m0 s0 = (Inr m1, s1)"
    and live: "link env m0 = Some l"
    and live': "link env' m1 = Some l'"
    and same_set: "set (GetGeometries l') = set (GetGeometries l)"
    and same_visibility:
      "\<forall>g\<in>set (GetGeometries l). IsVisible (geometries env' g) = IsVisible (geometries env g)"
  shows "LinkMarker_EnvironmentSync env' m1 s1 =
           (Inr m1, s1 @ [SetPose (name (interactive_marker_m m1)) (toROSPose (GetTransform l'))])"
proof -
  from EnvironmentSync_consistent [OF first live]
  have "\<forall>g\<in>set (GetGeometries l).
          IsVisible (geometries env g) = (geometry_markers_m m1 g \<noteq> None)" by simp
  with same_set same_visibility
  have "\<not> detect_change (geometries env') (geometry_markers_m m1) (GetGeometries l') False"
    by (simp add: detect_change_iff)
  from EnvironmentSync_unchanged [OF live' this] show ?thesis .
qed

text \<open>
  In the scene, the tick after the first one finds nothing changed and only sets the pose.
\<close>

theorem LinkMarker_second_sync_pose_only_witness:
  "LinkMarker_EnvironmentSync ex_env ex_link_marker [] =
     (Inr ex_synced_marker, [Insert (message ex_synced_marker)]) \<and>
   link ex_env ex_link_marker = Some ex_link \<and>
   link ex_env ex_synced_marker = Some ex_link \<and>
   LinkMarker_EnvironmentSync ex_env ex_synced_marker [Insert (message ex_synced_marker)] =
     (Inr ex_synced_marker,
      [Insert (message ex_synced_marker),
       SetPose (name (interactive_marker_m ex_synced_marker)) (toROSPose (GetTransform ex_link))])"
  using LinkMarker_second_sync_pose_only [OF ex_first_sync ex_link_live ex_synced_live]
    ex_first_sync ex_link_live ex_synced_live
  by simp

text \<open>
  Claim C3. After a call of \<open>LinkMarker::EnvironmentSync\<close> that returned, if exactly one
  geometry \<open>g\<close> of the link has its visibility flag toggled and the geometry set is
  otherwise the same, the next call recreates the marker: it runs \<open>CreateGeometry\<close> and
  its only call on the server is \<open>insert\<close> of the new marker. The control then has one
  primitive for each entry of the link's geometry list that is visible and has renderable
  content, that is, every visible one except those of kind none, triangle mesh or unknown
  without a render-mesh path.
\<close>

theorem LinkMarker_toggle_recreates:
  assumes first: "LinkMarker_EnvironmentSync env m0 s0 = (Inr m1, s1)"
    and live: "link env m0 = Some l"
    and live': "link env' m1 = Some l'"
    and same_set: "set (GetGeometries l') = set (GetGeometries l)"
    and member: "g \<in> set (GetGeometries l)"
    and toggled:
      "\<forall>p\<in>set (GetGeometries l).
         IsVisible (geometries env' p) =
           (if p = g then \<not> IsVisible (geometries env p) else IsVisible (geometries env p))"
  shows "\<exists>m2. LinkMarker_EnvironmentSync env' m1 s1 = (Inr m2, s1 @ [Insert (message m2)]) \<and>
              CreateGeometry env' m1 = Inr m2 \<and>
              length (markers (visual_control_m m2)) =
                length (filter (\<lambda>p. IsVisible (geometries env' p) \<and>
                                     has_renderable_content (geometries env' p))
                          (GetGeometries l'))"
proof -
  from EnvironmentSync_consistent [OF first live] member
  have "IsVisible (geometries env g) = (geometry_markers_m m1 g \<noteq> None)" by simp
  moreover from toggled member
  have "IsVisible (geometries env' g) = (\<not> IsVisible (geometries env g))" by simp
  ultimately have "IsVisible (geometries env' g) = (geometry_markers_m m1 g = None)" by simp
  with member same_set
  have changed: "detect_change (geometries env') (geometry_markers_m m1) (GetGeometries l') False"
    by (auto simp: detect_change_iff)
  from EnvironmentSync_changed [OF live' changed, of s1]
  obtain m2 where cg: "CreateGeometry env' m1 = Inr m2"
    and sync: "LinkMarker_EnvironmentSync env' m1 s1 = (Inr m2, s1 @ [Insert (message m2)])"
    by blast
  from cg have "length (markers (visual_control_m m2)) =
      length (filter (\<lambda>p. IsVisible (geometries env' p) \<and>
                           has_renderable_content (geometries env' p)) (GetGeometries l'))"
    by (auto simp: CreateGeometry_live [OF live'] CreateGeometry_loop_length
        CreateGeometry_of_None_iff)
  with cg sync show ?thesis by blast
qed

text \<open>
  In the scene, showing the hidden box makes the next tick insert a marker with two
  primitives.
\<close>

theorem LinkMarker_toggle_recreates_witness:
  "LinkMarker_EnvironmentSync ex_env ex_link_marker [] =
     (Inr ex_synced_marker, [Insert (message ex_synced_marker)]) \<and>
   link ex_env ex_link_marker = Some ex_link \<and>
   link ex_env_shown ex_synced_marker = Some ex_link \<and>
   1 \<in> set (GetGeometries ex_link) \<and>
   \<not> IsVisible (geometries ex_env 1) \<and> IsVisible (geometries ex_env_shown 1) \<and>
   IsVisible (geometries ex_env 0) \<and> IsVisible (geometries ex_env_shown 0) \<and>
   snd (LinkMarker_EnvironmentSync ex_env_shown ex_synced_marker
          [Insert (message ex_synced_marker)]) =
     [Insert (message ex_synced_marker),
      Insert (message (projr (CreateGeometry ex_env_shown ex_synced_marker)))] \<and>
   length (markers (visual_control_m (projr (CreateGeometry ex_env_shown ex_synced_marker)))) = 2"
proof -
  have vis: "\<not> IsVisible (geometries ex_env 1)" "IsVisible (geometries ex_env_shown 1)"
    "IsVisible (geometries ex_env 0)" "IsVisible (geometries ex_env_shown 0)"
    by (simp_all add: ex_geometries ex_env_shown_def)
  have mem: "1 \<in> set (GetGeometries ex_link)" by (simp add: ex_geometries)
  have toggled: "\<forall>p\<in>set (GetGeometries ex_link).
         IsVisible (geometries ex_env_shown p) =
           (if p = 1 then \<not> IsVisible (geometries ex_env p) else IsVisible (geometries ex_env p))"
    by (simp add: ex_geometries ex_env_shown_def)
  have count: "length (filter (\<lambda>p. IsVisible (geometries ex_env_shown p) \<and>
      has_renderable_content (geometries ex_env_shown p)) (GetGeometries ex_link)) = 2"
    by (simp add: ex_geometries ex_env_shown_def ex_box_renderable)
  from LinkMarker_toggle_recreates [OF ex_first_sync ex_link_live ex_synced_live_shown refl
      mem toggled] count
  have "snd (LinkMarker_EnvironmentSync ex_env_shown ex_synced_marker
          [Insert (message ex_synced_marker)]) =
     [Insert (message ex_synced_marker),
      Insert (message (projr (CreateGeometry ex_env_shown ex_synced_marker)))] \<and>
   length (markers (visual_control_m (projr (CreateGeometry ex_env_shown ex_synced_marker)))) = 2"
    by auto
  with vis mem ex_first_sync ex_link_live ex_synced_live_shown show ?thesis by simp
qed

text \<open>
  Claim C4 as stated fails in two ways. The keys are not the whole geometry set of the
  link: in the scene the hidden box is a geometry of the link and has no entry after
  \<open>CreateGeometry\<close>. And a renderable geometry need not be mapped to its primitive: with
  both boxes shown, the second \<open>push_back\<close> moves the vector, and the pointer stored for
  the first box is left pointing into the freed buffer.
\<close>

theorem CreateGeometry_omits_hidden_geometry:
  "link ex_env ex_link_marker = Some ex_link \<and>
   CreateGeometry ex_env ex_link_marker = Inr ex_synced_marker \<and>
   1 \<in> set (GetGeometries ex_link) \<and>
   1 \<notin> dom (geometry_markers_m ex_synced_marker) \<and>
   dom (geometry_markers_m ex_synced_marker) \<noteq> set (GetGeometries ex_link) \<and>
   CreateGeometry ex_env_shown ex_link_marker = Inr ex_shown_marker \<and>
   geometry_markers_m ex_shown_marker 0 = Some (MarkerAddr 1 0) \<and>
   buffer (markers_storage_m ex_shown_marker) = 2 \<and>
   points_to (markers_vector ex_shown_marker) (MarkerAddr 1 0) = None"
proof -
  have mem: "1 \<in> set (GetGeometries ex_link)" by (simp add: ex_geometries)
  have out: "1 \<notin> dom (geometry_markers_m ex_synced_marker)"
    by (simp add: dom_def ex_synced_fields)
  from mem out
  have differ: "dom (geometry_markers_m ex_synced_marker) \<noteq> set (GetGeometries ex_link)"
    by blast
  have dangles: "points_to (markers_vector ex_shown_marker) (MarkerAddr 1 0) = None"
    by (simp add: points_to_def markers_vector_def ex_shown_fields)
  show ?thesis
    by (intro conjI)
      (rule ex_link_live ex_CreateGeometry mem out differ ex_shown_CreateGeometry
        ex_shown_fields(1) ex_shown_fields(4) dangles)+
qed

text \<open>
  Claim C4, amended. After \<open>CreateGeometry\<close> on a live link the keys of
  \<open>geometry_markers_\<close> are exactly the visible geometries of the link. A visible geometry
  without renderable content is mapped to \<open>NULL\<close>; one with renderable content is mapped
  to a pointer that is not \<open>NULL\<close>. Whenever a stored pointer still points into the
  vector, the primitive it refers to is the one made from its geometry; a later
  \<open>push_back\<close> may have left it dangling. A hidden geometry has no entry.
\<close>

theorem CreateGeometry_keys_visible:
  assumes live: "link env m = Some l"
  shows "\<exists>m'. CreateGeometry env m = Inr m' \<and>
           dom (geometry_markers_m m') =
             {g \<in> set (GetGeometries l). IsVisible (geometries env g)} \<and>
           (\<forall>g\<in>set (GetGeometries l). IsVisible (geometries env g) \<longrightarrow>
              (if has_renderable_content (geometries env g)
               then \<exists>b i. geometry_markers_m m' g = Some (MarkerAddr b i)
               else geometry_markers_m m' g = Some NULL)) \<and>
           (\<forall>g p x. geometry_markers_m m' g = Some p \<and>
                     points_to (markers_vector m') p = Some x \<longrightarrow>
              CreateGeometry_of (is_ghost_m m) (geometries env g) = Some x) \<and>
           (\<forall>g\<in>set (GetGeometries l). \<not> IsVisible (geometries env g) \<longrightarrow>
              geometry_markers_m m' g = None)"
proof -
  let ?r = "CreateGeometry_loop (geometries env) (is_ghost_m m) (GetGeometries l)
              (([], markers_storage_m m), Map.empty)"
  let ?m' = "m\<lparr>visual_control_m := (visual_control_m m)\<lparr>markers := fst (fst ?r)\<rparr>,
               markers_storage_m := snd (fst ?r), geometry_markers_m := snd ?r\<rparr>"
  have cg: "CreateGeometry env m = Inr ?m'" by (rule CreateGeometry_live [OF live])
  have keys: "dom (geometry_markers_m ?m') =
      {g \<in> set (GetGeometries l). IsVisible (geometries env g)}"
    by (simp add: CreateGeometry_loop_dom)
  have entries: "if has_renderable_content (geometries env g)
               then \<exists>b i. geometry_markers_m ?m' g = Some (MarkerAddr b i)
               else geometry_markers_m ?m' g = Some NULL"
    if "g \<in> set (GetGeometries l)" "IsVisible (geometries env g)" for g
  proof -
    from CreateGeometry_loop_entry [where h = "geometries env" and gh = "is_ghost_m m"
        and v = "([], markers_storage_m m)" and gm = Map.empty, OF that]
    obtain p where p: "snd ?r g = Some p"
      and null: "(p = NULL) = (\<not> has_renderable_content (geometries env g))"
      by (auto simp: CreateGeometry_of_None_iff)
    show ?thesis
    proof (cases p)
      case NULL
      with p null show ?thesis by simp
    next
      case (MarkerAddr b i)
      with p null show ?thesis by simp
    qed
  qed
  have "pointers_ok (geometries env) (is_ghost_m m) (([], markers_storage_m m), Map.empty)"
    by (simp add: pointers_ok_def)
  then have ok: "pointers_ok (geometries env) (is_ghost_m m) ?r"
    by (rule CreateGeometry_loop_pointers)
  have refers: "CreateGeometry_of (is_ghost_m m) (geometries env g) = Some x"
    if "geometry_markers_m ?m' g = Some p" "points_to (markers_vector ?m') p = Some x" for g p x
  proof (cases p)
    case NULL
    with that show ?thesis by (simp add: points_to_def markers_vector_def)
  next
    case (MarkerAddr b i)
    from that(1) MarkerAddr have entry: "snd ?r g = Some (MarkerAddr b i)" by simp
    from that(2) MarkerAddr have here: "b = buffer (snd (fst ?r))"
      and range: "i < length (fst (fst ?r))" and x: "x = fst (fst ?r) ! i"
      by (simp_all add: points_to_def markers_vector_def split: if_splits)
    from ok entry have "b = buffer (snd (fst ?r)) \<longrightarrow>
        CreateGeometry_of (is_ghost_m m) (geometries env g) = Some (fst (fst ?r) ! i)"
      unfolding pointers_ok_def by blast
    with here x show ?thesis by simp
  qed
  have hidden: "geometry_markers_m ?m' g = None"
    if "\<not> IsVisible (geometries env g)" for g
    using keys that by (auto simp: dom_def)
  from cg keys entries refers hidden show ?thesis by blast
qed

text \<open>
  In the scene the only key is the visible box, and its pointer refers to the cube made
  from it.
\<close>

theorem CreateGeometry_keys_visible_witness:
  "link ex_env ex_link_marker = Some ex_link \<and>
   CreateGeometry ex_env ex_link_marker = Inr ex_synced_marker \<and>
   dom (geometry_markers_m ex_synced_marker) = {0} \<and>
   geometry_markers_m ex_synced_marker 0 = Some (MarkerAddr 1 0) \<and>
   points_to (markers_vector ex_synced_marker) (MarkerAddr 1 0) =
     CreateGeometry_of False ex_box \<and>
   geometry_markers_m ex_synced_marker 1 = None"
proof -
  from CreateGeometry_keys_visible [OF ex_link_live]
  obtain m' where cg: "CreateGeometry ex_env ex_link_marker = Inr m'"
    and keys: "dom (geometry_markers_m m') =
      {g \<in> set (GetGeometries ex_link). IsVisible (geometries ex_env g)}"
    and refers: "\<forall>g p x. geometry_markers_m m' g = Some p \<and>
                     points_to (markers_vector m') p = Some x \<longrightarrow>
              CreateGeometry_of (is_ghost_m ex_link_marker) (geometries ex_env g) = Some x"
    and hidden: "\<forall>g\<in>set (GetGeometries ex_link). \<not> IsVisible (geometries ex_env g) \<longrightarrow>
              geometry_markers_m m' g = None"
    by blast
  from cg ex_CreateGeometry have m': "m' = ex_synced_marker" by simp
  have "{g \<in> set (GetGeometries ex_link). IsVisible (geometries ex_env g)} = {0}"
    by (auto simp: ex_geometries)
  with keys have dom: "dom (geometry_markers_m ex_synced_marker) = {0}"
    unfolding m' by simp
  have "markers (visual_control_m ex_synced_marker) \<noteq> []"
    using ex_synced_fields(4) by auto
  then obtain x where x: "points_to (markers_vector ex_synced_marker) (MarkerAddr 1 0) = Some x"
    by (simp add: points_to_def markers_vector_def ex_synced_fields)
  from refers ex_synced_fields(2) x
  have "CreateGeometry_of (is_ghost_m ex_link_marker) (geometries ex_env 0) = Some x"
    unfolding m' by blast
  with x have refers0: "points_to (markers_vector ex_synced_marker) (MarkerAddr 1 0) =
      CreateGeometry_of False ex_box"
    by (simp add: ex_link_marker_fields ex_geometries)
  from hidden have none: "geometry_markers_m ex_synced_marker 1 = None"
    unfolding m' by (simp add: ex_geometries)
  show ?thesis
    by (intro conjI)
      (rule ex_link_live ex_CreateGeometry dom ex_synced_fields(2) refers0 none)+
qed

text \<open>
  Claim C8 as stated, that a new render mode forces a recreation on the next tick, fails
  in the scene: after \<open>SetRenderMode(kCollision)\<close> on the synced marker the tick only sets
  the pose.
\<close>

theorem SetRenderMode_then_sync_pose_only:
  "render_mode_m ex_synced_marker = kVisual \<and>
   render_mode_m (SetRenderMode kCollision ex_synced_marker) = kCollision \<and>
   LinkMarker_EnvironmentSync ex_env (SetRenderMode kCollision ex_synced_marker) [] =
     (Inr (SetRenderMode kCollision ex_synced_marker),
      [SetPose (name (interactive_marker_m ex_synced_marker))
         (toROSPose (GetTransform ex_link))])"
proof -
  have mode: "render_mode_m ex_synced_marker = kVisual"
    using CreateGeometry_unchanged [OF ex_CreateGeometry] by (simp add: ex_link_marker_fields)
  have live: "link ex_env (SetRenderMode kCollision ex_synced_marker) = Some ex_link"
    using ex_synced_live by (simp add: link_def SetRenderMode_def)
  have "\<not> detect_change (geometries ex_env)
      (geometry_markers_m (SetRenderMode kCollision ex_synced_marker)) (GetGeometries ex_link) False"
    by (simp add: SetRenderMode_def ex_geometries ex_synced_fields)
  from EnvironmentSync_unchanged [OF live this, of "[]"] mode
  show ?thesis by (simp add: SetRenderMode_def)
qed

text \<open>
  Claim C8, amended. \<open>SetRenderMode\<close> only stores the mode. \<open>EnvironmentSync\<close> after it
  makes the same calls on the server as without it, and the marker it leaves differs in
  \<open>render_mode_\<close> only: the mode neither forces a recreation nor selects the geometries a
  recreation reads.
\<close>

theorem SetRenderMode_not_read:
  "LinkMarker_EnvironmentSync env (SetRenderMode mode m) srv =
     (map_sum id (SetRenderMode mode) (fst (LinkMarker_EnvironmentSync env m srv)),
      snd (LinkMarker_EnvironmentSync env m srv))"
  by (auto simp: LinkMarker_EnvironmentSync_def SetRenderMode_def CreateGeometry_def link_def
      message_def split: option.splits prod.splits)

text \<open>
  In the scene, the first tick after \<open>SetRenderMode(kCollision)\<close> inserts the same marker
  as without it.
\<close>

theorem SetRenderMode_not_read_witness:
  "LinkMarker_EnvironmentSync ex_env (SetRenderMode kCollision ex_link_marker) [] =
     (Inr (SetRenderMode kCollision ex_synced_marker), [Insert (message ex_synced_marker)])"
  using SetRenderMode_not_read [of ex_env kCollision ex_link_marker "[]"]
  by (simp add: ex_first_sync)

subsection \<open>JointMarker\<close>

lemma JointMarker_EnvironmentSync_calls:
  "snd (JointMarker_EnvironmentSync env m srv) =
     srv @ (if force_update_m m then [Insert (marker_m m)] else [])
         @ [SetPose (name (marker_m m)) (toROSPose (JointMarker_pose m))]"
  by (simp add: JointMarker_EnvironmentSync_def JointMarker_pose_def joint_def Let_def
      split: option.splits)

lemma JointMarker_EnvironmentSync_idle:
  assumes "\<not> active_m m" and "joint env m = Some j"
  shows "fst (JointMarker_EnvironmentSync env m srv) =
           Inr (False, m\<lparr>force_update_m := False, joint_initial_m := GetValue0 j,
                         joint_delta_m := 0, created_m := True\<rparr>)"
  using assms by (simp add: JointMarker_EnvironmentSync_def joint_def Let_def)

lemma JointMarker_EnvironmentSync_expired:
  assumes "\<not> active_m m" and "joint env m = None"
  shows "fst (JointMarker_EnvironmentSync env m srv) = Inl NullPointerDereference"
  using assms by (simp add: JointMarker_EnvironmentSync_def joint_def Let_def)

lemma JointMarker_EnvironmentSync_active:
  assumes "active_m m"
  shows "fst (JointMarker_EnvironmentSync env m srv) =
           Inr (False, m\<lparr>force_update_m := False, created_m := True\<rparr>)"
  using assms by (simp add: JointMarker_EnvironmentSync_def Let_def)

lemma JointMarker_step_active:
  assumes "active_m m" and "\<not> is_mouse_up op"
  shows "\<exists>m'. fst (JointMarker_step X op m srv) = Inr m' \<and> active_m m' \<and>
              joint_pose_m m' = joint_pose_m m"
proof (cases op)
  case (Tick env)
  obtain r s where rs: "JointMarker_EnvironmentSync env m srv = (r, s)" by (cases "JointMarker_EnvironmentSync env m srv")
  with JointMarker_EnvironmentSync_active [OF assms(1), of env srv]
  have "r = Inr (False, m\<lparr>force_update_m := False, created_m := True\<rparr>)" by simp
  with Tick rs assms(1) show ?thesis by (simp add: JointMarker_step_def)
next
  case (Set_pose p)
  with assms show ?thesis by (simp add: JointMarker_step_def set_pose_def)
next
  case (Set_parent_frame f)
  with assms show ?thesis by (simp add: JointMarker_step_def set_parent_frame_def)
next
  case (Feedback fb)
  with assms show ?thesis
    by (auto simp: JointMarker_step_def JointCallback_def is_mouse_up_def Let_def
        split: prod.splits)
qed

lemma JointMarker_run_active:
  assumes "active_m m" and "\<forall>op\<in>set ops. \<not> is_mouse_up op"
  shows "\<exists>m'. fst (JointMarker_run X ops m srv) = Inr m' \<and> active_m m' \<and>
              joint_pose_m m' = joint_pose_m m"
  using assms
proof (induction ops arbitrary: m srv)
  case Nil
  then show ?case by simp
next
  case (Cons op ops)
  from Cons.prems have "\<not> is_mouse_up op" by simp
  from JointMarker_step_active [OF Cons.prems(1) this, of X srv]
  obtain m1 s1 where step: "JointMarker_step X op m srv = (Inr m1, s1)"
    and act: "active_m m1" and same: "joint_pose_m m1 = joint_pose_m m"
    by (cases "JointMarker_step X op m srv") auto
  from Cons.prems have "\<forall>op\<in>set ops. \<not> is_mouse_up op" by simp
  from Cons.IH [OF act this, of s1] same step show ?case by simp
qed

lemma ex_joint_marker_new:
  "JointMarker_new ex_externals ex_env [] 0 =
     (Inr ex_joint_marker,
      [Insert (marker_m ex_joint_marker), SetCallback (name (marker_m ex_joint_marker))])"
  by (simp add: ex_joint_marker_def JointMarker_new_def ex_env_def ex_hinge_def Let_def)

lemma ex_joint_marker_fields:
  "joint_m ex_joint_marker = 0" "\<not> active_m ex_joint_marker" "force_update_m ex_joint_marker"
  "joint_initial_m ex_joint_marker = 1 / 2" "joint_delta_m ex_joint_marker = 0"
  "joint_pose_m ex_joint_marker = GetJointPose ex_externals ex_hinge"
  by (simp_all add: ex_joint_marker_def JointMarker_new_def ex_env_def ex_hinge_def Let_def)

lemma ex_slider_marker_new:
  "JointMarker_new ex_externals ex_env [] 1 = (Inr ex_slider_marker, [])"
  by (simp add: ex_slider_marker_def JointMarker_new_def ex_env_def ex_hinge_def ex_slider_def
      Let_def)

lemma ex_slider_marker_fields:
  "joint_m ex_slider_marker = 1" "\<not> active_m ex_slider_marker" "force_update_m ex_slider_marker"
  "marker_m ex_slider_marker = default_InteractiveMarker"
  "joint_pose_m ex_slider_marker = GetJointPose ex_externals ex_slider"
  by (simp_all add: ex_slider_marker_def JointMarker_new_def ex_env_def ex_hinge_def
      ex_slider_def Let_def)

lemma ex_joint_live:
  "joint ex_env ex_joint_marker = Some ex_hinge"
  "joint ex_env_turned ex_joint_marker = Some (ex_hinge\<lparr>GetValue0 := 1\<rparr>)"
  "joint ex_env_expired ex_joint_marker = None"
  "joint ex_env ex_slider_marker = Some ex_slider"
  by (simp_all add: joint_def ex_joint_marker_fields ex_slider_marker_fields ex_env_def
      ex_env_turned_def ex_env_expired_def)

lemma ex_dragged_fields:
  "active_m ex_dragged_marker" "joint_m ex_dragged_marker = 0"
  "angle ex_dragged_marker = 1 / 2"
  by (simp_all add: ex_dragged_marker_def JointCallback_def ex_down_def ex_joint_marker_fields
      angle_def)

text \<open>
  Claim C1 as stated, that a tick with an expired reference is skipped, fails in the scene
  once its link and joint are gone: the link marker's tick fails on the empty pointer, and
  the joint marker's tick has inserted the marker and set its pose before it fails.
\<close>

theorem EnvironmentSync_expired_reference_fails:
  "link ex_env_expired ex_link_marker = None \<and>
   LinkMarker_EnvironmentSync ex_env_expired ex_link_marker [] = (Inl NullPointerDereference, []) \<and>
   joint ex_env_expired ex_joint_marker = None \<and>
   JointMarker_EnvironmentSync ex_env_expired ex_joint_marker [] =
     (Inl NullPointerDereference,
      [Insert (marker_m ex_joint_marker),
       SetPose (name (marker_m ex_joint_marker)) (toROSPose (JointMarker_pose ex_joint_marker))])"
proof -
  have gone: "link ex_env_expired ex_link_marker = None"
    by (simp add: link_def ex_env_expired_def ex_env_def)
  then have lsync: "LinkMarker_EnvironmentSync ex_env_expired ex_link_marker [] =
      (Inl NullPointerDereference, [])"
    by (simp add: LinkMarker_EnvironmentSync_def)
  have jsync: "JointMarker_EnvironmentSync ex_env_expired ex_joint_marker [] =
     (Inl NullPointerDereference,
      [Insert (marker_m ex_joint_marker),
       SetPose (name (marker_m ex_joint_marker)) (toROSPose (JointMarker_pose ex_joint_marker))])"
    using JointMarker_EnvironmentSync_expired [OF ex_joint_marker_fields(2) ex_joint_live(3), of "[]"]
      JointMarker_EnvironmentSync_calls [of ex_env_expired ex_joint_marker "[]"]
    by (simp add: ex_joint_marker_fields prod_eq_iff)
  from gone lsync jsync ex_joint_live(3) show ?thesis by simp
qed

text \<open>
  Claim C1, amended. \<open>EnvironmentSync\<close> locks the weak reference and dereferences the
  result without testing it. A \<open>LinkMarker\<close> whose link has expired makes no call on the
  server and fails on the empty pointer; with a live link it returns. A \<open>JointMarker\<close>
  makes its calls on the server (\<open>insert\<close> when \<open>force_update_\<close> is set, then \<open>setPose\<close>)
  whether the joint is live or not; it then fails on the empty pointer when the joint has
  expired and no drag is in progress, and returns otherwise.
\<close>

theorem EnvironmentSync_dereferences_unchecked:
  "(link env lm = None \<longrightarrow>
      LinkMarker_EnvironmentSync env lm srv = (Inl NullPointerDereference, srv)) \<and>
   (link env lm \<noteq> None \<longrightarrow>
      (\<exists>lm'. fst (LinkMarker_EnvironmentSync env lm srv) = Inr lm')) \<and>
   snd (JointMarker_EnvironmentSync env jm srv) =
      srv @ (if force_update_m jm then [Insert (marker_m jm)] else [])
          @ [SetPose (name (marker_m jm)) (toROSPose (JointMarker_pose jm))] \<and>
   (joint env jm = None \<and> \<not> active_m jm \<longrightarrow>
      fst (JointMarker_EnvironmentSync env jm srv) = Inl NullPointerDereference) \<and>
   (joint env jm \<noteq> None \<or> active_m jm \<longrightarrow>
      (\<exists>r jm'. fst (JointMarker_EnvironmentSync env jm srv) = Inr (r, jm')))"
proof (intro conjI impI)
  assume "link env lm = None"
  then show "LinkMarker_EnvironmentSync env lm srv = (Inl NullPointerDereference, srv)"
    by (simp add: LinkMarker_EnvironmentSync_def)
next
  assume "link env lm \<noteq> None"
  then obtain l where l: "link env lm = Some l" by auto
  show "\<exists>lm'. fst (LinkMarker_EnvironmentSync env lm srv) = Inr lm'"
  proof (cases "detect_change (geometries env) (geometry_markers_m lm) (GetGeometries l) False")
    case True
    from EnvironmentSync_changed [OF l True, of srv] show ?thesis by auto
  next
    case False
    from EnvironmentSync_unchanged [OF l False, of srv] show ?thesis by simp
  qed
next
  show "snd (JointMarker_EnvironmentSync env jm srv) =
      srv @ (if force_update_m jm then [Insert (marker_m jm)] else [])
          @ [SetPose (name (marker_m jm)) (toROSPose (JointMarker_pose jm))]"
    by (rule JointMarker_EnvironmentSync_calls)
next
  assume "joint env jm = None \<and> \<not> active_m jm"
  then show "fst (JointMarker_EnvironmentSync env jm srv) = Inl NullPointerDereference"
    by (simp add: JointMarker_EnvironmentSync_expired)
next
  assume "joint env jm \<noteq> None \<or> active_m jm"
  then show "\<exists>r jm'. fst (JointMarker_EnvironmentSync env jm srv) = Inr (r, jm')"
    by (cases "active_m jm")
      (auto simp: JointMarker_EnvironmentSync_active JointMarker_EnvironmentSync_idle)
qed

text \<open>
  Both markers of the scene, with the link and the joint gone and with them alive.
\<close>

theorem EnvironmentSync_dereferences_unchecked_witness:
  "link ex_env_expired ex_link_marker = None \<and>
   LinkMarker_EnvironmentSync ex_env_expired ex_link_marker [] = (Inl NullPointerDereference, []) \<and>
   link ex_env ex_link_marker = Some ex_link \<and>
   \<not> isl (fst (LinkMarker_EnvironmentSync ex_env ex_link_marker [])) \<and>
   joint ex_env_expired ex_joint_marker = None \<and> \<not> active_m ex_joint_marker \<and>
   fst (JointMarker_EnvironmentSync ex_env_expired ex_joint_marker []) =
     Inl NullPointerDereference \<and>
   joint ex_env ex_joint_marker = Some ex_hinge \<and>
   \<not> isl (fst (JointMarker_EnvironmentSync ex_env ex_joint_marker []))"
proof -
  have gone: "link ex_env_expired ex_link_marker = None"
    by (simp add: link_def ex_env_expired_def ex_env_def)
  from EnvironmentSync_dereferences_unchecked
    [of ex_env_expired ex_link_marker "[]" ex_joint_marker] gone ex_joint_live(3)
    ex_joint_marker_fields(2)
  have expired: "LinkMarker_EnvironmentSync ex_env_expired ex_link_marker [] =
      (Inl NullPointerDereference, [])"
    "fst (JointMarker_EnvironmentSync ex_env_expired ex_joint_marker []) =
      Inl NullPointerDereference"
    by simp_all
  from EnvironmentSync_dereferences_unchecked [of ex_env ex_link_marker "[]" ex_joint_marker]
    ex_link_live ex_joint_live(1)
  have live: "\<not> isl (fst (LinkMarker_EnvironmentSync ex_env ex_link_marker []))"
    "\<not> isl (fst (JointMarker_EnvironmentSync ex_env ex_joint_marker []))"
    by auto
  from gone expired live ex_link_live ex_joint_live ex_joint_marker_fields(2)
  show ?thesis by simp
qed

text \<open>
  Claim C5, at a prismatic joint. The constructor returns a marker and calls nothing on
  the server, as the claim says. The first \<open>EnvironmentSync\<close> on that marker is not a
  no-op: \<open>force_update_\<close> was initialised to \<open>true\<close>, so it inserts the default-constructed
  \<open>marker_\<close>, whose name is empty, and then sets the pose under that empty name.
\<close>

theorem JointMarker_inert_sync_inserts:
  "joints ex_env 1 = Some ex_slider \<and> JointGetType ex_slider = JointPrismatic \<and>
   JointMarker_new ex_externals ex_env [] 1 = (Inr ex_slider_marker, []) \<and>
   \<not> isl (fst (JointMarker_EnvironmentSync ex_env ex_slider_marker [])) \<and>
   snd (JointMarker_EnvironmentSync ex_env ex_slider_marker []) =
     [Insert default_InteractiveMarker,
      SetPose [] (toROSPose (GetJointPose ex_externals ex_slider))]"
proof -
  have j: "joints ex_env 1 = Some ex_slider" "JointGetType ex_slider = JointPrismatic"
    by (simp_all add: ex_env_def ex_slider_def)
  have ok: "\<not> isl (fst (JointMarker_EnvironmentSync ex_env ex_slider_marker []))"
    by (simp add: JointMarker_EnvironmentSync_idle [OF ex_slider_marker_fields(2) ex_joint_live(4)])
  have calls: "snd (JointMarker_EnvironmentSync ex_env ex_slider_marker []) =
     [Insert default_InteractiveMarker,
      SetPose [] (toROSPose (GetJointPose ex_externals ex_slider))]"
    by (simp add: JointMarker_EnvironmentSync_calls ex_slider_marker_fields JointMarker_pose_def
        default_InteractiveMarker_def)
  from j ok calls ex_slider_marker_new show ?thesis by simp
qed

text \<open>
  Claim C6. For a marker on a live joint: with no drag in progress \<open>EnvironmentSync\<close>
  returns and leaves \<open>angle()\<close> equal to the joint's current value, \<open>joint_initial_\<close>
  refreshed and \<open>joint_delta_\<close> zero; with a drag in progress \<open>EnvironmentSync\<close> returns
  and leaves \<open>angle()\<close> unchanged, as does every other operation except a pose-update
  feedback event.
\<close>

theorem JointMarker_angle_sync:
  assumes live: "joint env m = Some j"
  shows "(\<not> active_m m \<longrightarrow>
            (\<exists>m'. fst (JointMarker_EnvironmentSync env m srv) = Inr (False, m') \<and>
                  angle m' = GetValue0 j \<and> joint_initial_m m' = GetValue0 j \<and>
                  joint_delta_m m' = 0)) \<and>
         (active_m m \<longrightarrow>
            (\<exists>m'. fst (JointMarker_EnvironmentSync env m srv) = Inr (False, m') \<and>
                  angle m' = angle m) \<and>
            (\<forall>op. \<not> is_pose_update op \<longrightarrow>
               (\<exists>m'. fst (JointMarker_step X op m srv) = Inr m' \<and> angle m' = angle m)))"
proof (intro conjI impI allI)
  assume "\<not> active_m m"
  from JointMarker_EnvironmentSync_idle [OF this live, of srv]
  show "\<exists>m'. fst (JointMarker_EnvironmentSync env m srv) = Inr (False, m') \<and>
             angle m' = GetValue0 j \<and> joint_initial_m m' = GetValue0 j \<and> joint_delta_m m' = 0"
    by (simp add: angle_def)
next
  assume "active_m m"
  from JointMarker_EnvironmentSync_active [OF this, of env srv]
  show "\<exists>m'. fst (JointMarker_EnvironmentSync env m srv) = Inr (False, m') \<and> angle m' = angle m"
    by (simp add: angle_def)
next
  fix op
  assume act: "active_m m" and np: "\<not> is_pose_update op"
  show "\<exists>m'. fst (JointMarker_step X op m srv) = Inr m' \<and> angle m' = angle m"
  proof (cases op)
    case (Tick e)
    obtain r s where rs: "JointMarker_EnvironmentSync e m srv = (r, s)"
      by (cases "JointMarker_EnvironmentSync e m srv")
    with JointMarker_EnvironmentSync_active [OF act, of e srv]
    have "r = Inr (False, m\<lparr>force_update_m := False, created_m := True\<rparr>)" by simp
    with Tick rs show ?thesis by (simp add: JointMarker_step_def angle_def)
  next
    case (Set_pose p)
    with act show ?thesis by (simp add: JointMarker_step_def set_pose_def)
  next
    case (Set_parent_frame f)
    then show ?thesis by (simp add: JointMarker_step_def set_parent_frame_def angle_def)
  next
    case (Feedback f)
    with np show ?thesis
      by (simp add: JointMarker_step_def JointCallback_def is_pose_update_def angle_def)
  qed
qed

text \<open>
  In the scene with the hinge turned from 1/2 to 1: the idle marker's angle follows to 1,
  the dragged marker's angle stays at 1/2 over a tick and over \<open>set_pose\<close>.
\<close>

theorem JointMarker_angle_sync_witness:
  "joint ex_env_turned ex_joint_marker = Some (ex_hinge\<lparr>GetValue0 := 1\<rparr>) \<and>
   \<not> active_m ex_joint_marker \<and> angle ex_joint_marker = 1 / 2 \<and>
   \<not> isl (fst (JointMarker_EnvironmentSync ex_env_turned ex_joint_marker [])) \<and>
   angle (snd (projr (fst (JointMarker_EnvironmentSync ex_env_turned ex_joint_marker [])))) = 1 \<and>
   joint ex_env_turned ex_dragged_marker = Some (ex_hinge\<lparr>GetValue0 := 1\<rparr>) \<and>
   active_m ex_dragged_marker \<and> angle ex_dragged_marker = 1 / 2 \<and>
   \<not> isl (fst (JointMarker_EnvironmentSync ex_env_turned ex_dragged_marker [])) \<and>
   angle (snd (projr (fst (JointMarker_EnvironmentSync ex_env_turned ex_dragged_marker []))))
     = 1 / 2 \<and>
   \<not> is_pose_update (Set_pose default_Transform) \<and>
   angle (projr (fst (JointMarker_step ex_externals (Set_pose default_Transform)
                        ex_dragged_marker []))) = 1 / 2"
proof -
  have a0: "angle ex_joint_marker = 1 / 2" by (simp add: angle_def ex_joint_marker_fields)
  have live: "joint ex_env_turned ex_dragged_marker = Some (ex_hinge\<lparr>GetValue0 := 1\<rparr>)"
    by (simp add: joint_def ex_dragged_fields ex_env_turned_def)
  have np: "\<not> is_pose_update (Set_pose default_Transform)" by (simp add: is_pose_update_def)
  from JointMarker_angle_sync [OF ex_joint_live(2), of "[]" ex_externals] ex_joint_marker_fields(2)
  have idle: "\<not> isl (fst (JointMarker_EnvironmentSync ex_env_turned ex_joint_marker []))"
    "angle (snd (projr (fst (JointMarker_EnvironmentSync ex_env_turned ex_joint_marker [])))) = 1"
    by auto
  from JointMarker_angle_sync [OF live, of "[]" ex_externals] ex_dragged_fields(1) np
  have drag: "\<not> isl (fst (JointMarker_EnvironmentSync ex_env_turned ex_dragged_marker []))"
    "angle (snd (projr (fst (JointMarker_EnvironmentSync ex_env_turned ex_dragged_marker []))))
       = angle ex_dragged_marker"
    "angle (projr (fst (JointMarker_step ex_externals (Set_pose default_Transform)
                        ex_dragged_marker []))) = angle ex_dragged_marker"
    by auto
  from a0 live np idle drag ex_joint_live(2) ex_joint_marker_fields(2) ex_dragged_fields
  show ?thesis by simp
qed

text \<open>
  Claim C7. After a mouse-down event, whatever sequence of ticks, \<open>set_pose\<close> and
  \<open>set_parent_frame\<close> calls and feedback events other than mouse-up follows, every
  operation returns, the drag is still active, \<open>joint_pose_\<close> is what it was at the
  mouse-down, and \<open>set_pose\<close> leaves the marker unchanged.
\<close>

theorem JointMarker_pose_frozen_while_dragging:
  assumes down: "event_type fb = MOUSE_DOWN"
    and no_up: "\<forall>op\<in>set ops. \<not> is_mouse_up op"
  shows "\<exists>m'. fst (JointMarker_run X ops (JointCallback X fb m) srv) = Inr m' \<and>
              active_m m' \<and> joint_pose_m m' = joint_pose_m m \<and> set_pose p m' = m'"
proof -
  from down have act: "active_m (JointCallback X fb m)"
    and same: "joint_pose_m (JointCallback X fb m) = joint_pose_m m"
    by (simp_all add: JointCallback_def)
  from JointMarker_run_active [OF act no_up, of X srv] same
  show ?thesis by (auto simp: set_pose_def)
qed

text \<open>
  A drag on the hinge's marker with two ticks (one after the joint has expired), a
  \<open>set_pose\<close> to another pose, a pose update and a change of parent frame in between.
\<close>

theorem JointMarker_pose_frozen_while_dragging_witness:
  "event_type ex_down = MOUSE_DOWN \<and>
   \<not> is_mouse_up (Tick ex_env_turned) \<and> \<not> is_mouse_up (Set_pose default_Transform) \<and>
   \<not> is_mouse_up (Feedback ex_update) \<and> \<not> is_mouse_up (Set_parent_frame ''/map'') \<and>
   \<not> is_mouse_up (Tick ex_env_expired) \<and>
   \<not> isl (fst (JointMarker_run ex_externals ex_ops
                 (JointCallback ex_externals ex_down ex_joint_marker) [])) \<and>
   joint_pose_m (projr (fst (JointMarker_run ex_externals ex_ops
                 (JointCallback ex_externals ex_down ex_joint_marker) []))) =
     joint_pose_m ex_joint_marker \<and>
   joint_pose_m ex_joint_marker \<noteq> default_Transform"
proof -
  have down: "event_type ex_down = MOUSE_DOWN" by (simp add: ex_down_def)
  have ups: "\<not> is_mouse_up (Tick ex_env_turned)" "\<not> is_mouse_up (Set_pose default_Transform)"
    "\<not> is_mouse_up (Feedback ex_update)" "\<not> is_mouse_up (Set_parent_frame ''/map'')"
    "\<not> is_mouse_up (Tick ex_env_expired)"
    by (simp_all add: is_mouse_up_def ex_update_def)
  then have no_up: "\<forall>op\<in>set ex_ops. \<not> is_mouse_up op" by (simp add: ex_ops_def)
  have other: "joint_pose_m ex_joint_marker \<noteq> default_Transform"
    by (simp add: ex_joint_marker_fields GetJointPose_def ex_externals_def ex_hinge_def
        default_Transform_def)
  from JointMarker_pose_frozen_while_dragging [OF down no_up, where X = ex_externals
      and m = ex_joint_marker and srv = "[]" and p = default_Transform]
  have "\<not> isl (fst (JointMarker_run ex_externals ex_ops
                 (JointCallback ex_externals ex_down ex_joint_marker) []))"
    "joint_pose_m (projr (fst (JointMarker_run ex_externals ex_ops
                 (JointCallback ex_externals ex_down ex_joint_marker) []))) =
     joint_pose_m ex_joint_marker"
    by auto
  with down ups other show ?thesis by simp
qed

text \<open>
  Claim C10. \<open>JointMarker::EnvironmentSync\<close> never returns \<open>true\<close>: whenever it returns,
  the flag is \<open>false\<close> and \<open>created_\<close> is set; and it does return whenever the joint is
  live or a drag is in progress, whatever \<open>force_update_\<close> and \<open>created_\<close> were and whether
  or not the marker was registered.
\<close>

theorem JointMarker_EnvironmentSync_returns_false:
  "(\<forall>r m'. fst (JointMarker_EnvironmentSync env m srv) = Inr (r, m') \<longrightarrow>
       r = False \<and> created_m m') \<and>
   (active_m m \<or> joint env m \<noteq> None \<longrightarrow>
       (\<exists>m'. fst (JointMarker_EnvironmentSync env m srv) = Inr (False, m') \<and> created_m m'))"
proof (cases "active_m m")
  case True
  from JointMarker_EnvironmentSync_active [OF True, of env srv] show ?thesis by simp
next
  case idle: False
  show ?thesis
  proof (cases "joint env m")
    case None
    from JointMarker_EnvironmentSync_expired [OF idle None, of srv] idle None
    show ?thesis by simp
  next
    case (Some j)
    from JointMarker_EnvironmentSync_idle [OF idle Some, of srv] show ?thesis by simp
  qed
qed

text \<open>
  The first tick of the hinge's marker returns \<open>false\<close> and sets \<open>created_\<close>.
\<close>

theorem JointMarker_EnvironmentSync_returns_false_witness:
  "joint ex_env ex_joint_marker = Some ex_hinge \<and>
   \<not> isl (fst (JointMarker_EnvironmentSync ex_env ex_joint_marker [])) \<and>
   fst (projr (fst (JointMarker_EnvironmentSync ex_env ex_joint_marker []))) = False \<and>
   created_m (snd (projr (fst (JointMarker_EnvironmentSync ex_env ex_joint_marker []))))"
  using JointMarker_EnvironmentSync_returns_false [of ex_env ex_joint_marker "[]"] ex_joint_live(1)
  by auto

subsection \<open>SuperViewer\<close>

lemma geoms_loop_length: "length (geoms_loop X h l ks shown) \<le> Suc (length shown)"
  by (induction ks) auto

text \<open>
  Whatever the environment holds, one tick of the viewer shows at most one geometry.
\<close>

lemma SuperViewer_EnvironmentSync_at_most_one:
  "SuperViewer_EnvironmentSync X boxDisplay env = Inr shown \<Longrightarrow> length shown \<le> 1"
  using geoms_loop_length [of X "geometries env" _ _ "[]"]
  by (auto simp: SuperViewer_EnvironmentSync_def links_loop_def Let_def
      split: if_splits option.splits)

text \<open>
  Claim C9, in the scene: two bodies with one link each, three geometry entries in all, none
  with a NaN bounding box. \<open>SuperViewer::EnvironmentSync\<close> shows the first geometry of the
  first link of the first body and nothing else: each of the three loops ends in an
  unconditional \<open>break\<close>.
\<close>

theorem SuperViewer_EnvironmentSync_first_geometry_only:
  "length (GetBodies ex_env) = 2 \<and>
   GetLinks (GetBodies ex_env ! 0) = [0] \<and> GetLinks (GetBodies ex_env ! 1) = [1] \<and>
   links ex_env 0 = Some ex_link \<and> links ex_env 1 = Some ex_link2 \<and>
   GetGeometries ex_link = [0, 1] \<and> GetGeometries ex_link2 = [0] \<and>
   \<not> AABBExtentsXIsNan (geometries ex_env 0) \<and> \<not> AABBExtentsXIsNan (geometries ex_env 1) \<and>
   SuperViewer_EnvironmentSync ex_externals True ex_env =
     Inr [markerMsg ex_externals ex_link (geometries ex_env 0)]"
  by (simp add: SuperViewer_EnvironmentSync_def links_loop_def ex_env_def ex_link_def
      ex_link2_def ex_box_def ex_hidden_def Let_def)

end